theory Spec2Isabelle
  imports Complex_Main
begin

section \<open>The Dashboard page of the F1 race outcome predictor\<close>

text \<open>
  The repository's executable code is a React front end. Its only component with
  behaviour of its own is \<^verbatim>\<open>Dashboard\<close>: it keeps five pieces of state
  (\<^verbatim>\<open>isLoaded\<close>, \<^verbatim>\<open>selectedRace\<close>, \<^verbatim>\<open>prediction\<close>, \<^verbatim>\<open>loading\<close>,
  \<^verbatim>\<open>error\<close>), looks the selected race up in a fixed calendar, and on every change of
  the selection runs \<^verbatim>\<open>fetchPrediction\<close>, which issues two HTTP requests and turns
  their JSON bodies into the displayed prediction, falling back to fixed demo data when
  anything in the \<^verbatim>\<open>try\<close> block throws.

  JavaScript strings are modelled as \<^typ>\<open>string\<close>; the few characters of the
  source outside ASCII (the flag emoji and the accented letters of three circuit names)
  are written as their UTF-8 bytes.
\<close>

subsection \<open>The race calendar and \<^verbatim>\<open>currentRace\<close>\<close>

record race =
  race_id :: string
  name :: string
  circuit :: string
  country :: string
  flag :: string
  date :: string

text \<open>The array literal \<^verbatim>\<open>availableRaces\<close>; the field \<^verbatim>\<open>id\<close> of the source is
  \<open>race_id\<close> here, since \<open>id\<close> is the identity function of HOL.\<close>

definition availableRaces :: "race list" where
  "availableRaces =
  [\<lparr>race_id = ''bahrain-2025'', name = ''Bahrain Grand Prix'',
     circuit = ''Bahrain International Circuit'',
     country = ''Bahrain'', flag = [CHR 0xF0, CHR 0x9F, CHR 0x87, CHR 0xA7, CHR 0xF0, CHR 0x9F, CHR 0x87, CHR 0xAD],
     date = ''March 2, 2025''\<rparr>,
   \<lparr>race_id = ''saudi-2025'', name = ''Saudi Arabian Grand Prix'',
     circuit = ''Jeddah Corniche Circuit'',
     country = ''Saudi Arabia'', flag = [CHR 0xF0, CHR 0x9F, CHR 0x87, CHR 0xB8, CHR 0xF0, CHR 0x9F, CHR 0x87, CHR 0xA6],
     date = ''March 9, 2025''\<rparr>,
   \<lparr>race_id = ''australia-2025'', name = ''Australian Grand Prix'',
     circuit = ''Albert Park Circuit'',
     country = ''Australia'', flag = [CHR 0xF0, CHR 0x9F, CHR 0x87, CHR 0xA6, CHR 0xF0, CHR 0x9F, CHR 0x87, CHR 0xBA],
     date = ''March 16, 2025''\<rparr>,
   \<lparr>race_id = ''japan-2025'', name = ''Japanese Grand Prix'',
     circuit = ''Suzuka Circuit'',
     country = ''Japan'', flag = [CHR 0xF0, CHR 0x9F, CHR 0x87, CHR 0xAF, CHR 0xF0, CHR 0x9F, CHR 0x87, CHR 0xB5],
     date = ''March 30, 2025''\<rparr>,
   \<lparr>race_id = ''china-2025'', name = ''Chinese Grand Prix'',
     circuit = ''Shanghai International Circuit'',
     country = ''China'', flag = [CHR 0xF0, CHR 0x9F, CHR 0x87, CHR 0xA8, CHR 0xF0, CHR 0x9F, CHR 0x87, CHR 0xB3],
     date = ''April 6, 2025''\<rparr>,
   \<lparr>race_id = ''miami-2025'', name = ''Miami Grand Prix'',
     circuit = ''Miami International Autodrome'',
     country = ''USA'', flag = [CHR 0xF0, CHR 0x9F, CHR 0x87, CHR 0xBA, CHR 0xF0, CHR 0x9F, CHR 0x87, CHR 0xB8],
     date = ''May 4, 2025''\<rparr>,
   \<lparr>race_id = ''monaco-2025'', name = ''Monaco Grand Prix'',
     circuit = ''Circuit de Monaco'',
     country = ''Monaco'', flag = [CHR 0xF0, CHR 0x9F, CHR 0x87, CHR 0xB2, CHR 0xF0, CHR 0x9F, CHR 0x87, CHR 0xA8],
     date = ''May 25, 2025''\<rparr>,
   \<lparr>race_id = ''spain-2025'', name = ''Spanish Grand Prix'',
     circuit = ''Circuit de Barcelona-Catalunya'',
     country = ''Spain'', flag = [CHR 0xF0, CHR 0x9F, CHR 0x87, CHR 0xAA, CHR 0xF0, CHR 0x9F, CHR 0x87, CHR 0xB8],
     date = ''June 1, 2025''\<rparr>,
   \<lparr>race_id = ''canada-2025'', name = ''Canadian Grand Prix'',
     circuit = ''Circuit Gilles Villeneuve'',
     country = ''Canada'', flag = [CHR 0xF0, CHR 0x9F, CHR 0x87, CHR 0xA8, CHR 0xF0, CHR 0x9F, CHR 0x87, CHR 0xA6],
     date = ''June 15, 2025''\<rparr>,
   \<lparr>race_id = ''austria-2025'', name = ''Austrian Grand Prix'',
     circuit = ''Red Bull Ring'',
     country = ''Austria'', flag = [CHR 0xF0, CHR 0x9F, CHR 0x87, CHR 0xA6, CHR 0xF0, CHR 0x9F, CHR 0x87, CHR 0xB9],
     date = ''June 29, 2025''\<rparr>,
   \<lparr>race_id = ''britain-2025'', name = ''British Grand Prix'',
     circuit = ''Silverstone Circuit'',
     country = ''Great Britain'', flag = [CHR 0xF0, CHR 0x9F, CHR 0x87, CHR 0xAC, CHR 0xF0, CHR 0x9F, CHR 0x87, CHR 0xA7],
     date = ''July 6, 2025''\<rparr>,
   \<lparr>race_id = ''belgium-2025'', name = ''Belgian Grand Prix'',
     circuit = ''Circuit de Spa-Francorchamps'',
     country = ''Belgium'', flag = [CHR 0xF0, CHR 0x9F, CHR 0x87, CHR 0xA7, CHR 0xF0, CHR 0x9F, CHR 0x87, CHR 0xAA],
     date = ''July 27, 2025''\<rparr>,
   \<lparr>race_id = ''netherlands-2025'', name = ''Dutch Grand Prix'',
     circuit = ''Circuit Zandvoort'',
     country = ''Netherlands'', flag = [CHR 0xF0, CHR 0x9F, CHR 0x87, CHR 0xB3, CHR 0xF0, CHR 0x9F, CHR 0x87, CHR 0xB1],
     date = ''August 31, 2025''\<rparr>,
   \<lparr>race_id = ''italy-2025'', name = ''Italian Grand Prix'',
     circuit = ''Autodromo Nazionale di Monza'',
     country = ''Italy'', flag = [CHR 0xF0, CHR 0x9F, CHR 0x87, CHR 0xAE, CHR 0xF0, CHR 0x9F, CHR 0x87, CHR 0xB9],
     date = ''September 7, 2025''\<rparr>,
   \<lparr>race_id = ''singapore-2025'', name = ''Singapore Grand Prix'',
     circuit = ''Marina Bay Street Circuit'',
     country = ''Singapore'', flag = [CHR 0xF0, CHR 0x9F, CHR 0x87, CHR 0xB8, CHR 0xF0, CHR 0x9F, CHR 0x87, CHR 0xAC],
     date = ''September 21, 2025''\<rparr>,
   \<lparr>race_id = ''usa-2025'', name = ''United States Grand Prix'',
     circuit = ''Circuit of the Americas'',
     country = ''USA'', flag = [CHR 0xF0, CHR 0x9F, CHR 0x87, CHR 0xBA, CHR 0xF0, CHR 0x9F, CHR 0x87, CHR 0xB8],
     date = ''October 19, 2025''\<rparr>,
   \<lparr>race_id = ''mexico-2025'', name = ''Mexico City Grand Prix'',
     circuit = ''Aut'' @ [CHR 0xC3, CHR 0xB3] @ ''dromo Hermanos Rodr'' @ [CHR 0xC3, CHR 0xAD] @ ''guez'',
     country = ''Mexico'', flag = [CHR 0xF0, CHR 0x9F, CHR 0x87, CHR 0xB2, CHR 0xF0, CHR 0x9F, CHR 0x87, CHR 0xBD],
     date = ''October 26, 2025''\<rparr>,
   \<lparr>race_id = ''brazil-2025'', name = ''Brazilian Grand Prix'',
     circuit = ''Aut'' @ [CHR 0xC3, CHR 0xB3] @ ''dromo Jos'' @ [CHR 0xC3, CHR 0xA9] @ '' Carlos Pace'',
     country = ''Brazil'', flag = [CHR 0xF0, CHR 0x9F, CHR 0x87, CHR 0xA7, CHR 0xF0, CHR 0x9F, CHR 0x87, CHR 0xB7],
     date = ''November 9, 2025''\<rparr>,
   \<lparr>race_id = ''qatar-2025'', name = ''Qatar Grand Prix'',
     circuit = ''Losail International Circuit'',
     country = ''Qatar'', flag = [CHR 0xF0, CHR 0x9F, CHR 0x87, CHR 0xB6, CHR 0xF0, CHR 0x9F, CHR 0x87, CHR 0xA6],
     date = ''November 30, 2025''\<rparr>,
   \<lparr>race_id = ''abu-dhabi-2025'', name = ''Abu Dhabi Grand Prix'',
     circuit = ''Yas Marina Circuit'',
     country = ''UAE'', flag = [CHR 0xF0, CHR 0x9F, CHR 0x87, CHR 0xA6, CHR 0xF0, CHR 0x9F, CHR 0x87, CHR 0xAA],
     date = ''December 7, 2025''\<rparr>]"

text \<open>
  \<^verbatim>\<open>Array.prototype.find\<close> returns the first element that satisfies the callback, or
  \<^verbatim>\<open>undefined\<close>; \<^verbatim>\<open>xs[0]\<close> is \<^verbatim>\<open>undefined\<close> on an empty array. Both are
  \<open>None\<close> here. A race record is an object, hence truthy, so \<^verbatim>\<open>a || b\<close> yields
  \<^verbatim>\<open>b\<close> exactly when \<^verbatim>\<open>find\<close> found nothing.
\<close>

fun array_find :: "('a \<Rightarrow> bool) \<Rightarrow> 'a list \<Rightarrow> 'a option" where
  "array_find p [] = None"
| "array_find p (x # xs) = (if p x then Some x else array_find p xs)"

fun array_index :: "'a list \<Rightarrow> nat \<Rightarrow> 'a option" where
  "array_index [] i = None"
| "array_index (x # xs) 0 = Some x"
| "array_index (x # xs) (Suc i) = array_index xs i"

definition currentRace :: "string \<Rightarrow> race option" where
  "currentRace selectedRace =
     (case array_find (\<lambda>race. race_id race = selectedRace) availableRaces of
        Some race \<Rightarrow> Some race
      | None \<Rightarrow> array_index availableRaces 0)"

subsection \<open>JavaScript values\<close>

text \<open>
  The bodies of the two HTTP responses are whatever \<^verbatim>\<open>response.json()\<close> yields, so
  the code can receive any JSON value, not only well-shaped ones. \<open>js\<close> has the JSON
  values (an object is the list of its own properties, looked up by name), together with
  \<^verbatim>\<open>undefined\<close> and \<open>JNative k\<close>, the built-in function or object that every plain
  object inherits from \<^verbatim>\<open>Object.prototype\<close> under the name \<open>k\<close>.

  A number is the exact value of a binary64 float, or an infinity, or NaN. The two
  zeros are one value: nothing below tells them apart (both are falsy and
  \<^verbatim>\<open>+0 === -0\<close>).
\<close>

datatype jsnum = Fin rat | PosInf | NegInf | NaN

datatype js =
    JUndefined
  | JNull
  | JBool bool
  | JNum jsnum
  | JStr string
  | JArr "js list"
  | JObj "(string \<times> js) list"
  | JNative string

text \<open>What a \<^verbatim>\<open>throw\<close> or a rejected promise carries. The \<^verbatim>\<open>catch\<close> clause of
  \<^verbatim>\<open>fetchPrediction\<close> only logs it.\<close>

datatype exn = TypeError | SyntaxError | Error string

text \<open>\<^verbatim>\<open>ToBoolean\<close>, which decides \<^verbatim>\<open>a || b\<close>.\<close>

fun truthy :: "js \<Rightarrow> bool" where
  "truthy JUndefined = False"
| "truthy JNull = False"
| "truthy (JBool b) = b"
| "truthy (JNum (Fin q)) = (q \<noteq> 0)"
| "truthy (JNum NaN) = False"
| "truthy (JNum PosInf) = True"
| "truthy (JNum NegInf) = True"
| "truthy (JStr s) = (s \<noteq> [])"
| "truthy (JArr xs) = True"
| "truthy (JObj ps) = True"
| "truthy (JNative k) = True"

definition js_or :: "js \<Rightarrow> js \<Rightarrow> js" where
  "js_or a b = (if truthy a then a else b)"

text \<open>
  \<^verbatim>\<open>a === b\<close>. Objects and arrays are equal only to themselves; the one comparison
  of the source, \<^verbatim>\<open>p.driver === winnerName\<close>, has its operands from two different
  response bodies (or the literal \<^verbatim>\<open>'Unknown'\<close>), so two objects met there are never
  the same object.
\<close>

fun strict_eq :: "js \<Rightarrow> js \<Rightarrow> bool" where
  "strict_eq JUndefined JUndefined = True"
| "strict_eq JNull JNull = True"
| "strict_eq (JBool a) (JBool b) = (a = b)"
| "strict_eq (JNum a) (JNum b) = (a = b \<and> a \<noteq> NaN)"
| "strict_eq (JStr a) (JStr b) = (a = b)"
| "strict_eq a b = False"

text \<open>
  Property access \<^verbatim>\<open>v.k\<close>. Reading a property of \<^verbatim>\<open>undefined\<close> or \<^verbatim>\<open>null\<close>
  throws a TypeError. The source reads only the names \<^verbatim>\<open>predictions\<close>, \<^verbatim>\<open>winner\<close>,
  \<^verbatim>\<open>confidence\<close>, \<^verbatim>\<open>podium_probabilities\<close>, \<^verbatim>\<open>driver\<close>, \<^verbatim>\<open>team\<close> and
  \<^verbatim>\<open>podium_probability\<close> this way; none of them is a built-in property of strings,
  numbers, booleans, arrays or \<^verbatim>\<open>Object.prototype\<close>, so on anything but an object
  with that own property the result is \<^verbatim>\<open>undefined\<close>.
\<close>

fun get_prop :: "js \<Rightarrow> string \<Rightarrow> exn + js" where
  "get_prop JUndefined k = Inl TypeError"
| "get_prop JNull k = Inl TypeError"
| "get_prop (JObj ps) k = Inr (case map_of ps k of Some v \<Rightarrow> v | None \<Rightarrow> JUndefined)"
| "get_prop v k = Inr JUndefined"

text \<open>Optional chaining \<^verbatim>\<open>v?.rest\<close>: \<^verbatim>\<open>undefined\<close> when \<open>v\<close> is nullish, and then
  the rest of the chain is not evaluated.\<close>

definition nullish :: "js \<Rightarrow> bool" where
  "nullish v = (v = JUndefined \<or> v = JNull)"

definition opt_chain :: "js \<Rightarrow> (js \<Rightarrow> exn + js) \<Rightarrow> exn + js" where
  "opt_chain v rest = (if nullish v then Inr JUndefined else rest v)"

subsection \<open>\<^verbatim>\<open>getTeamColor\<close>\<close>

text \<open>
  \<^verbatim>\<open>colors[teamName] || '#FF0000'\<close>. The key is \<^verbatim>\<open>ToPropertyKey(teamName)\<close>: a string
  is its own key; for any other value the conversion \<^verbatim>\<open>ToString\<close> of the language is
  the parameter \<open>to_string\<close> (it formats floats, and it throws on an object with an own
  \<^verbatim>\<open>toString\<close> property). A key that is not in the table is looked up in
  \<^verbatim>\<open>Object.prototype\<close>, whose members are truthy.
\<close>

definition colors :: "(string \<times> string) list" where
  "colors =
    [(''Red Bull'', ''#0600EF''),
     (''Red Bull Racing'', ''#0600EF''),
     (''Ferrari'', ''#DC0000''),
     (''Mercedes'', ''#00D2BE''),
     (''McLaren'', ''#FF8000''),
     (''Aston Martin'', ''#006F62''),
     (''Alpine'', ''#0090FF''),
     (''Williams'', ''#005AFF''),
     (''AlphaTauri'', ''#2B4562''),
     (''RB'', ''#2B4562''),
     (''Alfa Romeo'', ''#900000''),
     (''Kick Sauber'', ''#52E252''),
     (''Haas'', ''#FFFFFF'')]"

definition object_prototype_keys :: "string list" where
  "object_prototype_keys =
    [''constructor'', ''hasOwnProperty'', ''isPrototypeOf'', ''propertyIsEnumerable'',
     ''toLocaleString'', ''toString'', ''valueOf'', ''__proto__'',
     ''__defineGetter__'', ''__defineSetter__'', ''__lookupGetter__'', ''__lookupSetter__'']"

definition to_property_key :: "(js \<Rightarrow> exn + string) \<Rightarrow> js \<Rightarrow> exn + string" where
  "to_property_key to_string v = (case v of JStr s \<Rightarrow> Inr s | _ \<Rightarrow> to_string v)"

definition getTeamColor :: "(js \<Rightarrow> exn + string) \<Rightarrow> js \<Rightarrow> exn + js" where
  "getTeamColor to_string teamName =
     (case to_property_key to_string teamName of
        Inl e \<Rightarrow> Inl e
      | Inr k \<Rightarrow>
          Inr (js_or
            (case map_of colors k of
               Some c \<Rightarrow> JStr c
             | None \<Rightarrow> if k \<in> set object_prototype_keys then JNative k else JUndefined)
            (JStr ''#FF0000'')))"

subsection \<open>The component state\<close>

record podium_entry =
  position :: js
  driver :: js
  team :: js
  probability :: js
  color :: js

record prediction_rec =
  winner :: js
  team :: js
  confidence :: js
  podium :: "podium_entry list"

text \<open>The five \<^verbatim>\<open>useState\<close> cells of \<^verbatim>\<open>Dashboard\<close>; \<open>error = None\<close> is
  \<^verbatim>\<open>null\<close>. \<^verbatim>\<open>selectedRace\<close> starts as a string literal and is only ever set to the
  \<^verbatim>\<open>value\<close> of the \<^verbatim>\<open>select\<close> element, which is a string.\<close>

record dashboard_state =
  isLoaded :: bool
  selectedRace :: string
  prediction :: prediction_rec
  loading :: bool
  error :: "string option"

text \<open>The object literal that is both the initial value of \<^verbatim>\<open>prediction\<close> and the
  fallback set in the \<^verbatim>\<open>catch\<close> clause (the source writes it out twice, identically).\<close>

definition demo_prediction :: prediction_rec where
  "demo_prediction =
     \<lparr>winner = JStr ''Max Verstappen'',
      team = JStr ''Red Bull Racing'',
      confidence = JNum (Fin 78),
      podium =
        [\<lparr>position = JNum (Fin 1), driver = JStr ''Max Verstappen'',
          podium_entry.team = JStr ''Red Bull'', probability = JNum (Fin 35),
          color = JStr ''#0600EF''\<rparr>,
         \<lparr>position = JNum (Fin 2), driver = JStr ''Charles Leclerc'',
          podium_entry.team = JStr ''Ferrari'', probability = JNum (Fin 28),
          color = JStr ''#DC0000''\<rparr>,
         \<lparr>position = JNum (Fin 3), driver = JStr ''Lewis Hamilton'',
          podium_entry.team = JStr ''Mercedes'', probability = JNum (Fin 22),
          color = JStr ''#00D2BE''\<rparr>]\<rparr>"

definition initial_state :: dashboard_state where
  "initial_state =
     \<lparr>isLoaded = False, selectedRace = ''bahrain-2025'', prediction = demo_prediction,
      loading = False, error = None\<rparr>"

subsection \<open>Transforming the API data\<close>

text \<open>
  Arithmetic on binary64 floats and the coercion \<^verbatim>\<open>ToNumber\<close> (which parses strings
  and may throw on objects) are outside this development: the expression
  \<^verbatim>\<open>Math.round(v * 100)\<close> is the parameter \<open>round100\<close> of everything below, and the
  results hold for every interpretation of it. \<open>round100_exact\<close> is an interpretation
  used only to run examples. It computes with exact rationals, not with binary64
  floats, so it is not \<^verbatim>\<open>Math.round(v * 100)\<close> in general: it agrees with JavaScript
  on \<^verbatim>\<open>undefined\<close>, \<^verbatim>\<open>null\<close>, booleans, and on a number whose product with 100
  is computed without rounding (such as 0.25, 0.5, 0.75), and it can differ where the
  float product is rounded (as for the floats nearest 0.615 and -0.005), where it
  overflows (1e308), and on strings, arrays and objects, which it does not parse.
\<close>

definition round100_exact :: "js \<Rightarrow> exn + jsnum" where
  "round100_exact v =
     (case v of
        JNum (Fin q) \<Rightarrow> Inr (Fin (of_int \<lfloor>q * 100 + 1 / 2\<rfloor>))
      | JNum n \<Rightarrow> Inr n
      | JNull \<Rightarrow> Inr (Fin 0)
      | JBool b \<Rightarrow> Inr (Fin (if b then 100 else 0))
      | _ \<Rightarrow> Inr NaN)"

text \<open>\<^verbatim>\<open>xs.find(p => p.driver === winnerName)\<close>: the callback throws on a
  \<^verbatim>\<open>null\<close> element, and the search stops at the first hit.\<close>

fun find_driver :: "js \<Rightarrow> js list \<Rightarrow> exn + js" where
  "find_driver winnerName [] = Inr JUndefined"
| "find_driver winnerName (p # ps) =
     (case get_prop p ''driver'' of
        Inl e \<Rightarrow> Inl e
      | Inr d \<Rightarrow> if strict_eq d winnerName then Inr p else find_driver winnerName ps)"

text \<open>
  \<^verbatim>\<open>podiumData.podium_probabilities?.find(...)\<close>. On a value that is neither nullish
  nor an array, \<^verbatim>\<open>.find\<close> is not a function (a JSON object can only hold a JSON
  value under that name), and the call throws.
\<close>

definition winnerInfo :: "js \<Rightarrow> js \<Rightarrow> exn + js" where
  "winnerInfo podiumData winnerName =
     (case get_prop podiumData ''podium_probabilities'' of
        Inl e \<Rightarrow> Inl e
      | Inr pp \<Rightarrow>
          opt_chain pp (\<lambda>v. case v of JArr xs \<Rightarrow> find_driver winnerName xs | _ \<Rightarrow> Inl TypeError))"

text \<open>The callback of \<^verbatim>\<open>map\<close>: the object literal's properties are evaluated in the
  order written.\<close>

definition podium_item ::
  "(js \<Rightarrow> exn + string) \<Rightarrow> (js \<Rightarrow> exn + jsnum) \<Rightarrow> nat \<Rightarrow> js \<Rightarrow> exn + podium_entry" where
  "podium_item to_string round100 index p =
     (case get_prop p ''driver'' of Inl e \<Rightarrow> Inl e | Inr d \<Rightarrow>
     (case get_prop p ''team'' of Inl e \<Rightarrow> Inl e | Inr t \<Rightarrow>
     (case get_prop p ''podium_probability'' of Inl e \<Rightarrow> Inl e | Inr pr \<Rightarrow>
     (case round100 pr of Inl e \<Rightarrow> Inl e | Inr n \<Rightarrow>
     (case getTeamColor to_string t of Inl e \<Rightarrow> Inl e | Inr c \<Rightarrow>
        Inr \<lparr>position = JNum (Fin (of_nat index + 1)), driver = d, podium_entry.team = t,
             probability = JNum n, color = c\<rparr>)))))"

text \<open>\<^verbatim>\<open>xs.map((p, index) => ...)\<close>, stopping at the first callback that throws.\<close>

fun array_map :: "(nat \<Rightarrow> 'a \<Rightarrow> exn + 'b) \<Rightarrow> nat \<Rightarrow> 'a list \<Rightarrow> exn + 'b list" where
  "array_map f index [] = Inr []"
| "array_map f index (x # xs) =
     (case f index x of
        Inl e \<Rightarrow> Inl e
      | Inr y \<Rightarrow> (case array_map f (Suc index) xs of Inl e \<Rightarrow> Inl e | Inr ys \<Rightarrow> Inr (y # ys)))"

text \<open>
  \<^verbatim>\<open>podiumData.podium_probabilities?.slice(0, 3).map(...) || []\<close>. An array is
  truthy, so \<^verbatim>\<open>|| []\<close> applies only to the \<^verbatim>\<open>undefined\<close> of a nullish
  \<^verbatim>\<open>podium_probabilities\<close>. A string has \<^verbatim>\<open>slice\<close> but its result has no
  \<^verbatim>\<open>map\<close>; numbers, booleans and objects have no callable \<^verbatim>\<open>slice\<close>: all throw.
\<close>

definition formattedPodium ::
  "(js \<Rightarrow> exn + string) \<Rightarrow> (js \<Rightarrow> exn + jsnum) \<Rightarrow> js \<Rightarrow> exn + podium_entry list" where
  "formattedPodium to_string round100 podiumData =
     (case get_prop podiumData ''podium_probabilities'' of
        Inl e \<Rightarrow> Inl e
      | Inr pp \<Rightarrow>
          if nullish pp then Inr []
          else (case pp of
                  JArr xs \<Rightarrow> array_map (podium_item to_string round100) 0 (take 3 xs)
                | _ \<Rightarrow> Inl TypeError))"

text \<open>The statements of the \<^verbatim>\<open>try\<close> block from \<^verbatim>\<open>const winnerName\<close> to the
  argument of \<^verbatim>\<open>setPrediction\<close>, in source order.\<close>

definition format_prediction ::
  "(js \<Rightarrow> exn + string) \<Rightarrow> (js \<Rightarrow> exn + jsnum) \<Rightarrow> js \<Rightarrow> js \<Rightarrow> exn + prediction_rec" where
  "format_prediction to_string round100 predictionData podiumData =
     (case get_prop predictionData ''predictions'' of Inl e \<Rightarrow> Inl e | Inr preds \<Rightarrow>
     (case opt_chain preds (\<lambda>v. get_prop v ''winner'') of Inl e \<Rightarrow> Inl e | Inr w \<Rightarrow>
     (let winnerName = js_or w (JStr ''Unknown'') in
     (case winnerInfo podiumData winnerName of Inl e \<Rightarrow> Inl e | Inr info \<Rightarrow>
     (case opt_chain info (\<lambda>v. get_prop v ''team'') of Inl e \<Rightarrow> Inl e | Inr t \<Rightarrow>
     (let winnerTeam = js_or t (JStr ''Unknown Team'') in
     (case formattedPodium to_string round100 podiumData of Inl e \<Rightarrow> Inl e | Inr fp \<Rightarrow>
     (case get_prop predictionData ''confidence'' of Inl e \<Rightarrow> Inl e | Inr c \<Rightarrow>
     (case round100 (js_or c (JNum (Fin 0))) of Inl e \<Rightarrow> Inl e | Inr n \<Rightarrow>
        Inr \<lparr>winner = winnerName, team = winnerTeam, confidence = JNum n,
             podium = fp\<rparr>)))))))))"

subsection \<open>\<^verbatim>\<open>fetchPrediction\<close>\<close>

text \<open>
  The network is a parameter: \<open>fetch url\<close> is how \<^verbatim>\<open>await fetch(url)\<close> ends, either
  rejected (\<open>Inl\<close>) or resolved with a response, of which the code uses the flag
  \<^verbatim>\<open>ok\<close> and the outcome of \<^verbatim>\<open>await response.json()\<close> (rejected when the body is
  not JSON). The two requests go to different URLs, so a function of the URL describes
  one run. A request that never settles has no outcome here: the model describes the
  runs of \<^verbatim>\<open>fetchPrediction\<close> that come to an end.
\<close>

record response =
  ok :: bool
  json :: "exn + js"

definition pre_race_url :: "string \<Rightarrow> string" where
  "pre_race_url raceId = ''http://localhost:8000/api/v1/predictions/pre-race/'' @ raceId"

definition podium_url :: "string \<Rightarrow> string" where
  "podium_url raceId = ''http://localhost:8000/api/v1/predictions/podium/'' @ raceId"

text \<open>The \<^verbatim>\<open>try\<close> block: \<open>Inr\<close> is the argument of \<^verbatim>\<open>setPrediction\<close>, \<open>Inl\<close> the
  value thrown into the \<^verbatim>\<open>catch\<close> clause.\<close>

definition try_block ::
  "(string \<Rightarrow> exn + response) \<Rightarrow> (js \<Rightarrow> exn + string) \<Rightarrow> (js \<Rightarrow> exn + jsnum) \<Rightarrow>
   string \<Rightarrow> exn + prediction_rec" where
  "try_block fetch to_string round100 raceId =
     (case fetch (pre_race_url raceId) of Inl e \<Rightarrow> Inl e | Inr predictionResponse \<Rightarrow>
     (if \<not> ok predictionResponse then Inl (Error ''Failed to fetch prediction'')
      else
     (case json predictionResponse of Inl e \<Rightarrow> Inl e | Inr predictionData \<Rightarrow>
     (case fetch (podium_url raceId) of Inl e \<Rightarrow> Inl e | Inr podiumResponse \<Rightarrow>
     (if \<not> ok podiumResponse then Inl (Error ''Failed to fetch podium'')
      else
     (case json podiumResponse of Inl e \<Rightarrow> Inl e | Inr podiumData \<Rightarrow>
        format_prediction to_string round100 predictionData podiumData))))))"

text \<open>
  One run of \<^verbatim>\<open>fetchPrediction(raceId)\<close> as a function on the component state: the
  two setters before the \<^verbatim>\<open>try\<close>, then either \<^verbatim>\<open>setPrediction\<close> with the
  transformed data or the two setters of the \<^verbatim>\<open>catch\<close> clause, then the setter of
  the \<^verbatim>\<open>finally\<close> clause. Each setter replaces one cell by a given value, so the
  state after the run is the result of applying them in order.
\<close>

definition fetchPrediction ::
  "(string \<Rightarrow> exn + response) \<Rightarrow> (js \<Rightarrow> exn + string) \<Rightarrow> (js \<Rightarrow> exn + jsnum) \<Rightarrow>
   string \<Rightarrow> dashboard_state \<Rightarrow> dashboard_state" where
  "fetchPrediction fetch to_string round100 raceId st =
     (let st1 = st\<lparr>loading := True, error := None\<rparr>;
          st2 = (case try_block fetch to_string round100 raceId of
                   Inr p \<Rightarrow> st1\<lparr>prediction := p\<rparr>
                 | Inl err \<Rightarrow>
                     st1\<lparr>prediction := demo_prediction,
                         error := Some ''Using demo predictions - API not available''\<rparr>)
      in st2\<lparr>loading := False\<rparr>)"

text \<open>The three ways in which a request goes wrong: the request itself fails, the
  response is not \<^verbatim>\<open>ok\<close>, or its body cannot be read as JSON.\<close>

definition request_fails :: "(string \<Rightarrow> exn + response) \<Rightarrow> string \<Rightarrow> bool" where
  "request_fails fetch url =
     (case fetch url of
        Inl e \<Rightarrow> True
      | Inr r \<Rightarrow> \<not> ok r \<or> (case json r of Inl e \<Rightarrow> True | Inr v \<Rightarrow> False))"

text \<open>The body of a request that did not go wrong.\<close>

definition body_of :: "(string \<Rightarrow> exn + response) \<Rightarrow> string \<Rightarrow> js option" where
  "body_of fetch url =
     (case fetch url of
        Inl e \<Rightarrow> None
      | Inr r \<Rightarrow> if ok r then (case json r of Inl e \<Rightarrow> None | Inr v \<Rightarrow> Some v) else None)"

section \<open>The session lifecycle of the Session Manager\<close>

text \<open>
  The Session Manager is specified but is not among the repository's sources; what
  follows is written from its specification.
\<close>

datatype session_state = Created | Live | Suspended | Completed | Aborted

datatype session_error = UnknownSessionError | IllegalTransitionError

text \<open>
  Modelled from the spec: the legal transition table of the session lifecycle, which no
  source file holds. The specification names these moves: Created to Live on the first
  accepted event; Live to Suspended on a red flag; Suspended back to Live when the track
  status clears; to Completed on the session-end signal; to Aborted on an irrecoverable
  feed failure. It names no move out of Completed or Aborted, and gives Completed to
  Live as an invalid one. The session-end signal and the feed failure are read as
  reaching a session that has not ended (Live or Suspended for the first; Created, Live
  or Suspended for the second).
\<close>

fun legal_transition :: "session_state \<Rightarrow> session_state \<Rightarrow> bool" where
  "legal_transition Created Live = True"
| "legal_transition Live Suspended = True"
| "legal_transition Suspended Live = True"
| "legal_transition Live Completed = True"
| "legal_transition Suspended Completed = True"
| "legal_transition Created Aborted = True"
| "legal_transition Live Aborted = True"
| "legal_transition Suspended Aborted = True"
| "legal_transition from to = False"

text \<open>
  Modelled from the spec: the operation \<^verbatim>\<open>transition(sessionId, newState)\<close> of the
  Session Manager, which no source file holds. It enforces the table and fails with
  \<^verbatim>\<open>IllegalTransitionError\<close> on a move outside it, leaving the session's state as it
  was. The registry maps a session id to the state of its session; the result is the
  outcome reported to the caller together with the registry after the call. For an id
  with no session the specification says nothing of this operation; the model reports
  the \<^verbatim>\<open>UnknownSessionError\<close> that event routing reports.
\<close>

definition transition ::
  "(string \<rightharpoonup> session_state) \<Rightarrow> string \<Rightarrow> session_state \<Rightarrow>
   (session_error + unit) \<times> (string \<rightharpoonup> session_state)" where
  "transition registry sessionId newState =
     (case registry sessionId of
        None \<Rightarrow> (Inl UnknownSessionError, registry)
      | Some s \<Rightarrow>
          if legal_transition s newState then (Inr (), registry(sessionId \<mapsto> newState))
          else (Inl IllegalTransitionError, registry))"

section \<open>Coalesced recomputation in the Probability Engine\<close>

text \<open>
  The Probability Engine is specified but is not among the repository's sources; what
  follows is written from the recomputation policy of its specification. It describes
  one session. A snapshot is any value (in the specification it carries a sequence
  number that tells it from every other snapshot of the session). The arrivals of the
  model are the snapshots that go through the queue: the recomputation that a
  track-status transition forces at once, without coalescing, does not go through it and
  is not described here.
\<close>

text \<open>
  Modelled from the spec: the state of the engine for one session, which no source file
  holds. \<open>busy\<close> says that a call of the scoring function is in progress; \<open>pending\<close>
  is the latest queued snapshot, if any; \<open>scored\<close> lists the snapshots that have been
  passed to the scoring function, oldest first.
\<close>

record 'a engine =
  busy :: bool
  pending :: "'a option"
  scored :: "'a list"

text \<open>Modelled from the spec: what happens to the engine of a session, a snapshot
  arriving or the scoring call in progress returning.\<close>

datatype 'a engine_event = Arrive 'a | Done

text \<open>Modelled from the spec: the engine of a session before its first snapshot.\<close>

definition idle_engine :: "'a engine" where
  "idle_engine = \<lparr>busy = False, pending = None, scored = []\<rparr>"

text \<open>
  Modelled from the spec: the recomputation policy, which no source file holds. A
  snapshot that arrives while no call is in progress is scored. One that arrives during
  a call becomes the latest queued snapshot, and the one queued before it, if any, is
  discarded. When the call returns, the queued snapshot, if there is one, is scored
  next.
\<close>

fun engine_step :: "'a engine \<Rightarrow> 'a engine_event \<Rightarrow> 'a engine" where
  "engine_step en (Arrive s) =
     (if busy en then en\<lparr>pending := Some s\<rparr>
      else en\<lparr>busy := True, scored := scored en @ [s]\<rparr>)"
| "engine_step en Done =
     (case pending en of
        Some s \<Rightarrow> en\<lparr>pending := None, scored := scored en @ [s]\<rparr>
      | None \<Rightarrow> en\<lparr>busy := False\<rparr>)"

text \<open>Modelled from the spec: the engine after a sequence of events, in the order they
  happen.\<close>

fun engine_run :: "'a engine \<Rightarrow> 'a engine_event list \<Rightarrow> 'a engine" where
  "engine_run en [] = en"
| "engine_run en (ev # evs) = engine_run (engine_step en ev) evs"

section \<open>Properties of the Dashboard\<close>

subsection \<open>The selected race\<close>

lemma array_find_None: "array_find p xs = None \<longleftrightarrow> (\<forall>x \<in> set xs. \<not> p x)"
  by (induction xs) auto

lemma array_find_Some: "array_find p xs = Some x \<Longrightarrow> x \<in> set xs \<and> p x"
  by (induction xs) (auto split: if_splits)

lemma availableRaces_first:
  "array_index availableRaces 0 = Some (availableRaces ! 0)"
  "race_id (availableRaces ! 0) = ''bahrain-2025''"
  by (simp_all add: availableRaces_def)

text \<open>
  Claim C10. Whatever string \<^verbatim>\<open>selectedRace\<close> holds, \<^verbatim>\<open>currentRace\<close> is a race
  record of the calendar, never \<^verbatim>\<open>undefined\<close>: the race with that id when the
  calendar has one, and otherwise the first entry, whose id is \<^verbatim>\<open>bahrain-2025\<close>.
\<close>

theorem currentRace_defined:
  "\<exists>race. currentRace selected = Some race \<and> race \<in> set availableRaces \<and>
     (if selected \<in> set (map race_id availableRaces)
      then race_id race = selected
      else race = availableRaces ! 0 \<and> race_id race = ''bahrain-2025'')"
proof (cases "array_find (\<lambda>race. race_id race = selected) availableRaces")
  case None
  then have absent: "selected \<notin> set (map race_id availableRaces)"
    by (auto simp: array_find_None)
  have "availableRaces ! 0 \<in> set availableRaces"
    by (simp add: availableRaces_def)
  with None absent show ?thesis
    by (simp add: currentRace_def availableRaces_first)
next
  case (Some race)
  then have "race \<in> set availableRaces" "race_id race = selected"
    using array_find_Some [OF Some] by simp_all
  with Some show ?thesis
    by (auto simp: currentRace_def)
qed

text \<open>An id that is not in the calendar, and one that is.\<close>

theorem currentRace_defined_witness:
  "(\<exists>race. currentRace ''monza-1999'' = Some race \<and> race_id race = ''bahrain-2025'') \<and>
   (\<exists>race. currentRace ''monaco-2025'' = Some race \<and> race_id race = ''monaco-2025'')"
proof -
  have a: "''monza-1999'' \<notin> set (map race_id availableRaces)"
    by (simp add: availableRaces_def)
  have b: "''monaco-2025'' \<in> set (map race_id availableRaces)"
    by (simp add: availableRaces_def)
  from currentRace_defined [of "''monza-1999''"] a
  have 1: "\<exists>race. currentRace ''monza-1999'' = Some race \<and> race_id race = ''bahrain-2025''"
    by auto
  from currentRace_defined [of "''monaco-2025''"] b
  have 2: "\<exists>race. currentRace ''monaco-2025'' = Some race \<and> race_id race = ''monaco-2025''"
    by auto
  from 1 2 show ?thesis by blast
qed

subsection \<open>The fallback of \<^verbatim>\<open>fetchPrediction\<close>\<close>

lemma try_block_fails:
  assumes "request_fails fetch (pre_race_url raceId) \<or>
           request_fails fetch (podium_url raceId) \<or>
           (\<exists>pd pod e. body_of fetch (pre_race_url raceId) = Some pd \<and>
                        body_of fetch (podium_url raceId) = Some pod \<and>
                        format_prediction to_string round100 pd pod = Inl e)"
  shows "\<exists>e. try_block fetch to_string round100 raceId = Inl e"
  using assms
  by (auto simp: try_block_def request_fails_def body_of_def
           split: sum.splits if_splits)

lemma fetchPrediction_catch:
  assumes "try_block fetch to_string round100 raceId = Inl e"
  shows "fetchPrediction fetch to_string round100 raceId st =
           st\<lparr>prediction := demo_prediction,
               error := Some ''Using demo predictions - API not available'',
               loading := False\<rparr>"
  using assms by (simp add: fetchPrediction_def)

lemma fetchPrediction_loading:
  "loading (fetchPrediction fetch to_string round100 raceId st) = False"
  by (simp add: fetchPrediction_def Let_def split: sum.splits)

lemma demo_prediction_fields:
  "winner demo_prediction = JStr ''Max Verstappen''"
  "prediction_rec.team demo_prediction = JStr ''Red Bull Racing''"
  "confidence demo_prediction = JNum (Fin 78)"
  "length (podium demo_prediction) = 3"
  by (simp_all add: demo_prediction_def)

text \<open>
  Claim C8. In a run of \<^verbatim>\<open>fetchPrediction\<close> in which either request fails, is
  answered with a response that is not \<^verbatim>\<open>ok\<close>, or has a body that is not JSON, or
  in which transforming the two bodies throws, \<^verbatim>\<open>prediction\<close> ends as the demo
  fallback (winner Max Verstappen, team Red Bull Racing, confidence 78, three podium
  entries) and \<^verbatim>\<open>error\<close> as the demo message. After every run, failed or not,
  \<^verbatim>\<open>loading\<close> is \<^verbatim>\<open>false\<close>.
\<close>

theorem fetchPrediction_fallback:
  "(let st' = fetchPrediction fetch to_string round100 raceId st in
     ((request_fails fetch (pre_race_url raceId) \<or>
       request_fails fetch (podium_url raceId) \<or>
       (\<exists>pd pod e. body_of fetch (pre_race_url raceId) = Some pd \<and>
                    body_of fetch (podium_url raceId) = Some pod \<and>
                    format_prediction to_string round100 pd pod = Inl e))
      \<longrightarrow> prediction st' = demo_prediction \<and>
          winner (prediction st') = JStr ''Max Verstappen'' \<and>
          prediction_rec.team (prediction st') = JStr ''Red Bull Racing'' \<and>
          confidence (prediction st') = JNum (Fin 78) \<and>
          length (podium (prediction st')) = 3 \<and>
          error st' = Some ''Using demo predictions - API not available'') \<and>
     loading st' = False)"
proof -
  let ?st' = "fetchPrediction fetch to_string round100 raceId st"
  have fin: "loading ?st' = False"
    by (rule fetchPrediction_loading)
  have fallback: "prediction ?st' = demo_prediction \<and>
      error ?st' = Some ''Using demo predictions - API not available''"
    if "request_fails fetch (pre_race_url raceId) \<or>
        request_fails fetch (podium_url raceId) \<or>
        (\<exists>pd pod e. body_of fetch (pre_race_url raceId) = Some pd \<and>
                     body_of fetch (podium_url raceId) = Some pod \<and>
                     format_prediction to_string round100 pd pod = Inl e)"
  proof -
    from try_block_fails [OF that] obtain e
      where "try_block fetch to_string round100 raceId = Inl e" ..
    from fetchPrediction_catch [OF this] show ?thesis by simp
  qed
  from fin fallback show ?thesis
    by (simp add: Let_def demo_prediction_fields)
qed

text \<open>A run with the network down, and a run in which both bodies are the JSON value
  \<^verbatim>\<open>null\<close>, so that the first property access throws.\<close>

theorem fetchPrediction_fallback_witness:
  "(let st' = fetchPrediction (\<lambda>url. Inl TypeError) (\<lambda>v. Inl TypeError) round100_exact
               ''monaco-2025'' initial_state
    in prediction st' = demo_prediction \<and>
       error st' = Some ''Using demo predictions - API not available'' \<and>
       loading st' = False) \<and>
   (let st' = fetchPrediction (\<lambda>url. Inr \<lparr>ok = True, json = Inr JNull\<rparr>) (\<lambda>v. Inl TypeError)
               round100_exact ''monaco-2025'' initial_state
    in prediction st' = demo_prediction \<and>
       error st' = Some ''Using demo predictions - API not available'' \<and>
       loading st' = False)"
proof -
  have a: "request_fails (\<lambda>url. Inl TypeError) (pre_race_url ''monaco-2025'')"
    by (simp add: request_fails_def)
  have b: "\<exists>pd pod e.
      body_of (\<lambda>url. Inr \<lparr>ok = True, json = Inr JNull\<rparr>) (pre_race_url ''monaco-2025'') = Some pd \<and>
      body_of (\<lambda>url. Inr \<lparr>ok = True, json = Inr JNull\<rparr>) (podium_url ''monaco-2025'') = Some pod \<and>
      format_prediction (\<lambda>v. Inl TypeError) round100_exact pd pod = Inl e"
    by (simp add: body_of_def format_prediction_def)
  from a fetchPrediction_fallback
         [of "\<lambda>url. Inl TypeError" "\<lambda>v. Inl TypeError" round100_exact "''monaco-2025''" initial_state]
  have 1: "let st' = fetchPrediction (\<lambda>url. Inl TypeError) (\<lambda>v. Inl TypeError) round100_exact
               ''monaco-2025'' initial_state
    in prediction st' = demo_prediction \<and>
       error st' = Some ''Using demo predictions - API not available'' \<and>
       loading st' = False"
    by (simp add: Let_def)
  from b fetchPrediction_fallback
         [of "\<lambda>url. Inr \<lparr>ok = True, json = Inr JNull\<rparr>" "\<lambda>v. Inl TypeError" round100_exact
             "''monaco-2025''" initial_state]
  have 2: "let st' = fetchPrediction (\<lambda>url. Inr \<lparr>ok = True, json = Inr JNull\<rparr>) (\<lambda>v. Inl TypeError)
               round100_exact ''monaco-2025'' initial_state
    in prediction st' = demo_prediction \<and>
       error st' = Some ''Using demo predictions - API not available'' \<and>
       loading st' = False"
    by (simp add: Let_def)
  from 1 2 show ?thesis by simp
qed

subsection \<open>The formatted podium\<close>

lemma array_map_Inr:
  "array_map f k xs = Inr ys \<Longrightarrow>
     length ys = length xs \<and> (\<forall>i<length xs. f (k + i) (xs ! i) = Inr (ys ! i))"
proof (induction xs arbitrary: k ys)
  case Nil
  then show ?case by simp
next
  case (Cons x xs)
  from Cons.prems obtain y ys' where
    y: "f k x = Inr y" and ys': "array_map f (Suc k) xs = Inr ys'" and ys: "ys = y # ys'"
    by (auto split: sum.splits)
  from Cons.IH [OF ys'] have len: "length ys' = length xs"
    and nth: "\<And>i. i < length xs \<Longrightarrow> f (Suc k + i) (xs ! i) = Inr (ys' ! i)"
    by simp_all
  have "f (k + i) ((x # xs) ! i) = Inr (ys ! i)" if "i < length (x # xs)" for i
  proof (cases i)
    case 0
    with y ys show ?thesis by simp
  next
    case (Suc j)
    with that have "j < length xs" by simp
    from nth [OF this] Suc ys show ?thesis by simp
  qed
  with len ys show ?case by simp
qed

lemma podium_item_Inr:
  assumes "podium_item to_string round100 index p = Inr e"
  shows "position e = JNum (Fin (of_nat index + 1))"
    and "\<exists>pr n. get_prop p ''podium_probability'' = Inr pr \<and> round100 pr = Inr n \<and>
                 probability e = JNum n"
  using assms by (auto simp: podium_item_def split: sum.splits)

lemma formattedPodium_cases:
  assumes "formattedPodium to_string round100 podiumData = Inr es"
  shows "(\<exists>pp. get_prop podiumData ''podium_probabilities'' = Inr pp \<and> nullish pp \<and> es = []) \<or>
         (\<exists>xs. get_prop podiumData ''podium_probabilities'' = Inr (JArr xs) \<and>
               array_map (podium_item to_string round100) 0 (take 3 xs) = Inr es)"
  using assms
  by (auto simp: formattedPodium_def nullish_def split: sum.splits if_splits js.splits)

lemma formattedPodium_length:
  assumes "formattedPodium to_string round100 podiumData = Inr es"
  shows "length es \<le> 3"
  using formattedPodium_cases [OF assms]
proof (elim disjE exE conjE)
  fix xs assume "array_map (podium_item to_string round100) 0 (take 3 xs) = Inr es"
  from array_map_Inr [OF this] show ?thesis by simp
qed simp

lemma formattedPodium_position:
  assumes "formattedPodium to_string round100 podiumData = Inr es" and "i < length es"
  shows "position (es ! i) = JNum (Fin (of_nat i + 1))"
  using formattedPodium_cases [OF assms(1)]
proof (elim disjE exE conjE)
  fix xs assume am: "array_map (podium_item to_string round100) 0 (take 3 xs) = Inr es"
  with array_map_Inr [OF am] assms(2)
  have "podium_item to_string round100 i (take 3 xs ! i) = Inr (es ! i)" by simp
  from podium_item_Inr(1) [OF this] show ?thesis .
next
  assume "es = []"
  with assms(2) show ?thesis by simp
qed

lemma formattedPodium_probability:
  assumes fp: "formattedPodium to_string round100 podiumData = Inr es" and ne: "es \<noteq> []"
  shows "\<exists>xs. get_prop podiumData ''podium_probabilities'' = Inr (JArr xs) \<and>
              length es = min 3 (length xs) \<and>
              (\<forall>i<length es. \<exists>pr n.
                  get_prop (xs ! i) ''podium_probability'' = Inr pr \<and>
                  round100 pr = Inr n \<and> probability (es ! i) = JNum n)"
proof -
  from formattedPodium_cases [OF fp] ne obtain xs where
    pp: "get_prop podiumData ''podium_probabilities'' = Inr (JArr xs)" and
    am: "array_map (podium_item to_string round100) 0 (take 3 xs) = Inr es"
    by auto
  from array_map_Inr [OF am] have len: "length es = min 3 (length xs)"
    and item: "\<And>i. i < length es \<Longrightarrow>
                 podium_item to_string round100 i (take 3 xs ! i) = Inr (es ! i)"
    by (simp_all add: min.commute)
  have "\<exists>pr n. get_prop (xs ! i) ''podium_probability'' = Inr pr \<and>
               round100 pr = Inr n \<and> probability (es ! i) = JNum n"
    if "i < length es" for i
  proof -
    from that len have "take 3 xs ! i = xs ! i" by simp
    with podium_item_Inr(2) [OF item [OF that]] show ?thesis by simp
  qed
  with pp len show ?thesis by blast
qed

lemma formattedPodium_no_field:
  assumes "get_prop podiumData ''podium_probabilities'' = Inr JUndefined"
  shows "formattedPodium to_string round100 podiumData = Inr []"
  using assms by (simp add: formattedPodium_def nullish_def)

text \<open>
  Claim C9. When the podium response has no \<^verbatim>\<open>podium_probabilities\<close> field (reading
  it gives \<^verbatim>\<open>undefined\<close>), \<^verbatim>\<open>formattedPodium\<close> is the empty list. Whenever
  \<^verbatim>\<open>formattedPodium\<close> is computed, it has at most three entries; entry number \<open>i\<close>
  (counting from 0) has position \<open>i + 1\<close>, whatever the response says of positions; and
  its probability is \<^verbatim>\<open>Math.round(podium_probability * 100)\<close> of element \<open>i\<close> of
  the response's list, of which it holds the first three elements.
\<close>

theorem formattedPodium_shape:
  "(get_prop podiumData ''podium_probabilities'' = Inr JUndefined \<longrightarrow>
      formattedPodium to_string round100 podiumData = Inr []) \<and>
   (\<forall>es. formattedPodium to_string round100 podiumData = Inr es \<longrightarrow>
      length es \<le> 3 \<and>
      (\<forall>i<length es. position (es ! i) = JNum (Fin (of_nat i + 1))) \<and>
      (es \<noteq> [] \<longrightarrow>
        (\<exists>xs. get_prop podiumData ''podium_probabilities'' = Inr (JArr xs) \<and>
              length es = min 3 (length xs) \<and>
              (\<forall>i<length es. \<exists>pr n.
                  get_prop (xs ! i) ''podium_probability'' = Inr pr \<and>
                  round100 pr = Inr n \<and> probability (es ! i) = JNum n))))"
  using formattedPodium_no_field formattedPodium_length formattedPodium_position
    formattedPodium_probability
  by (intro conjI allI impI) blast+

text \<open>
  A response with four entries whose own \<^verbatim>\<open>position\<close> fields are 9, 8, 7 and 6, and
  whose probabilities are floats that times 100 are exact; and a response with no
  \<^verbatim>\<open>podium_probabilities\<close> field.
\<close>

lemma round_floors:
  "\<lfloor>(151::rat) / 2\<rfloor> = 75" "\<lfloor>(101::rat) / 2\<rfloor> = 50" "\<lfloor>(51::rat) / 2\<rfloor> = 25"
  by code_simp+

lemma sample_eval:
  "formattedPodium (\<lambda>v. Inl TypeError) round100_exact
     (JObj [(''race_id'', JStr ''monaco-2025''),
            (''podium_probabilities'',
              JArr [JObj [(''driver'', JStr ''Lando Norris''), (''team'', JStr ''McLaren''),
                          (''podium_probability'', JNum (Fin (3 / 4))), (''position'', JNum (Fin 9))],
                    JObj [(''driver'', JStr ''Charles Leclerc''), (''team'', JStr ''Ferrari''),
                          (''podium_probability'', JNum (Fin (1 / 2))), (''position'', JNum (Fin 8))],
                    JObj [(''driver'', JStr ''Gabriel Bortoleto''), (''team'', JStr ''Sauber''),
                          (''podium_probability'', JNum (Fin (1 / 4))), (''position'', JNum (Fin 7))],
                    JObj [(''driver'', JStr ''Alexander Albon''), (''team'', JStr ''Williams''),
                          (''podium_probability'', JNum (Fin (1 / 8))), (''position'', JNum (Fin 6))]])])
   = Inr [\<lparr>position = JNum (Fin 1), driver = JStr ''Lando Norris'',
            podium_entry.team = JStr ''McLaren'', probability = JNum (Fin 75),
            color = JStr ''#FF8000''\<rparr>,
          \<lparr>position = JNum (Fin 2), driver = JStr ''Charles Leclerc'',
            podium_entry.team = JStr ''Ferrari'', probability = JNum (Fin 50),
            color = JStr ''#DC0000''\<rparr>,
          \<lparr>position = JNum (Fin 3), driver = JStr ''Gabriel Bortoleto'',
            podium_entry.team = JStr ''Sauber'', probability = JNum (Fin 25),
            color = JStr ''#FF0000''\<rparr>]"
  by (simp add: formattedPodium_def nullish_def podium_item_def getTeamColor_def
        to_property_key_def colors_def object_prototype_keys_def js_or_def round100_exact_def round_floors)

theorem formattedPodium_shape_witness:
  "(let es = [\<lparr>position = JNum (Fin 1), driver = JStr ''Lando Norris'',
            podium_entry.team = JStr ''McLaren'', probability = JNum (Fin 75),
            color = JStr ''#FF8000''\<rparr>,
          \<lparr>position = JNum (Fin 2), driver = JStr ''Charles Leclerc'',
            podium_entry.team = JStr ''Ferrari'', probability = JNum (Fin 50),
            color = JStr ''#DC0000''\<rparr>,
          \<lparr>position = JNum (Fin 3), driver = JStr ''Gabriel Bortoleto'',
            podium_entry.team = JStr ''Sauber'', probability = JNum (Fin 25),
            color = JStr ''#FF0000''\<rparr>]
    in formattedPodium (\<lambda>v. Inl TypeError) round100_exact
     (JObj [(''race_id'', JStr ''monaco-2025''),
            (''podium_probabilities'',
              JArr [JObj [(''driver'', JStr ''Lando Norris''), (''team'', JStr ''McLaren''),
                          (''podium_probability'', JNum (Fin (3 / 4))), (''position'', JNum (Fin 9))],
                    JObj [(''driver'', JStr ''Charles Leclerc''), (''team'', JStr ''Ferrari''),
                          (''podium_probability'', JNum (Fin (1 / 2))), (''position'', JNum (Fin 8))],
                    JObj [(''driver'', JStr ''Gabriel Bortoleto''), (''team'', JStr ''Sauber''),
                          (''podium_probability'', JNum (Fin (1 / 4))), (''position'', JNum (Fin 7))],
                    JObj [(''driver'', JStr ''Alexander Albon''), (''team'', JStr ''Williams''),
                          (''podium_probability'', JNum (Fin (1 / 8))), (''position'', JNum (Fin 6))]])])
       = Inr es \<and> length es \<le> 3 \<and>
       position (es ! 0) = JNum (Fin 1) \<and> position (es ! 1) = JNum (Fin 2) \<and>
       position (es ! 2) = JNum (Fin 3) \<and>
       map probability es = [JNum (Fin 75), JNum (Fin 50), JNum (Fin 25)] \<and>
       round100_exact (JNum (Fin (3 / 4))) = Inr (Fin 75)) \<and>
   formattedPodium (\<lambda>v. Inl TypeError) round100_exact
     (JObj [(''race_id'', JStr ''monaco-2025'')]) = Inr []"
proof -
  let ?podiumData = "JObj [(''race_id'', JStr ''monaco-2025''),
            (''podium_probabilities'',
              JArr [JObj [(''driver'', JStr ''Lando Norris''), (''team'', JStr ''McLaren''),
                          (''podium_probability'', JNum (Fin (3 / 4))), (''position'', JNum (Fin 9))],
                    JObj [(''driver'', JStr ''Charles Leclerc''), (''team'', JStr ''Ferrari''),
                          (''podium_probability'', JNum (Fin (1 / 2))), (''position'', JNum (Fin 8))],
                    JObj [(''driver'', JStr ''Gabriel Bortoleto''), (''team'', JStr ''Sauber''),
                          (''podium_probability'', JNum (Fin (1 / 4))), (''position'', JNum (Fin 7))],
                    JObj [(''driver'', JStr ''Alexander Albon''), (''team'', JStr ''Williams''),
                          (''podium_probability'', JNum (Fin (1 / 8))), (''position'', JNum (Fin 6))]])]"
  let ?es = "[\<lparr>position = JNum (Fin 1), driver = JStr ''Lando Norris'',
            podium_entry.team = JStr ''McLaren'', probability = JNum (Fin 75),
            color = JStr ''#FF8000''\<rparr>,
          \<lparr>position = JNum (Fin 2), driver = JStr ''Charles Leclerc'',
            podium_entry.team = JStr ''Ferrari'', probability = JNum (Fin 50),
            color = JStr ''#DC0000''\<rparr>,
          \<lparr>position = JNum (Fin 3), driver = JStr ''Gabriel Bortoleto'',
            podium_entry.team = JStr ''Sauber'', probability = JNum (Fin 25),
            color = JStr ''#FF0000''\<rparr>]"
  note shape = formattedPodium_shape [of _ "\<lambda>v. Inl TypeError" round100_exact]
  have run: "formattedPodium (\<lambda>v. Inl TypeError) round100_exact ?podiumData = Inr ?es"
    by (rule sample_eval)
  from shape [of ?podiumData] run
  have len: "length ?es \<le> 3"
    and pos: "\<forall>i<length ?es. position (?es ! i) = JNum (Fin (of_nat i + 1))"
    by blast+
  from pos have "position (?es ! 0) = JNum (Fin (of_nat 0 + 1))"
    "position (?es ! 1) = JNum (Fin (of_nat 1 + 1))"
    "position (?es ! 2) = JNum (Fin (of_nat 2 + 1))"
    by simp_all
  then have p: "position (?es ! 0) = JNum (Fin 1)" "position (?es ! 1) = JNum (Fin 2)"
    "position (?es ! 2) = JNum (Fin 3)"
    by simp_all
  have nofield: "get_prop (JObj [(''race_id'', JStr ''monaco-2025'')]) ''podium_probabilities''
      = Inr JUndefined"
    by simp
  from shape [of "JObj [(''race_id'', JStr ''monaco-2025'')]"] nofield
  have empty: "formattedPodium (\<lambda>v. Inl TypeError) round100_exact
     (JObj [(''race_id'', JStr ''monaco-2025'')]) = Inr []"
    by blast
  from shape [of ?podiumData] run
  obtain xs where xs: "get_prop ?podiumData ''podium_probabilities'' = Inr (JArr xs)"
    and all: "\<forall>i<length ?es. \<exists>pr n. get_prop (xs ! i) ''podium_probability'' = Inr pr \<and>
            round100_exact pr = Inr n \<and> probability (?es ! i) = JNum n"
    by blast
  have "0 < length ?es"
    by simp
  with all obtain pr n where pr: "get_prop (xs ! 0) ''podium_probability'' = Inr pr"
    and n: "round100_exact pr = Inr n" "probability (?es ! 0) = JNum n"
    by blast
  from xs have "get_prop (xs ! 0) ''podium_probability'' = Inr (JNum (Fin (3 / 4)))"
    by auto
  with pr n have first: "round100_exact (JNum (Fin (3 / 4))) = Inr (Fin 75)"
    by simp
  have prob: "map probability ?es = [JNum (Fin 75), JNum (Fin 50), JNum (Fin 25)]"
    by simp
  from run len p prob first empty show ?thesis
    unfolding Let_def by (intro conjI)
qed

section \<open>Properties of the session lifecycle\<close>

lemma transition_illegal:
  assumes "registry sessionId = Some s" and "\<not> legal_transition s newState"
  shows "transition registry sessionId newState = (Inl IllegalTransitionError, registry)"
  using assms by (simp add: transition_def)

lemma legal_transition_Completed: "\<not> legal_transition Completed newState"
  by (cases newState) simp_all

text \<open>
  Claim C5. On a session that is Completed, \<^verbatim>\<open>transition(sessionId, Completed)\<close>
  fails with \<^verbatim>\<open>IllegalTransitionError\<close> and the registry after the call is the
  registry before it. More generally, every move that is not in the legal transition
  table is rejected in the same way.
\<close>

theorem transition_rejects_illegal:
  "(registry sessionId = Some Completed \<longrightarrow>
      transition registry sessionId Completed = (Inl IllegalTransitionError, registry)) \<and>
   (\<forall>s newState. registry sessionId = Some s \<and> \<not> legal_transition s newState \<longrightarrow>
      transition registry sessionId newState = (Inl IllegalTransitionError, registry))"
  using legal_transition_Completed by (auto intro: transition_illegal)

text \<open>A registry with one Completed session, asked to move to Completed and to Live, and
  one with a Created session asked to move to Completed.\<close>

theorem transition_rejects_illegal_witness:
  "transition [''monaco-2025-race'' \<mapsto> Completed] ''monaco-2025-race'' Completed =
     (Inl IllegalTransitionError, [''monaco-2025-race'' \<mapsto> Completed]) \<and>
   transition [''monaco-2025-race'' \<mapsto> Completed] ''monaco-2025-race'' Live =
     (Inl IllegalTransitionError, [''monaco-2025-race'' \<mapsto> Completed]) \<and>
   transition [''monaco-2025-race'' \<mapsto> Created] ''monaco-2025-race'' Completed =
     (Inl IllegalTransitionError, [''monaco-2025-race'' \<mapsto> Created])"
proof -
  have c: "[''monaco-2025-race'' \<mapsto> Completed] ''monaco-2025-race'' = Some Completed"
    by simp
  have d: "[''monaco-2025-race'' \<mapsto> Created] ''monaco-2025-race'' = Some Created"
    by simp
  from transition_rejects_illegal [of "[''monaco-2025-race'' \<mapsto> Completed]" "''monaco-2025-race''"] c
  have 1: "transition [''monaco-2025-race'' \<mapsto> Completed] ''monaco-2025-race'' Completed =
     (Inl IllegalTransitionError, [''monaco-2025-race'' \<mapsto> Completed])"
    and 2: "transition [''monaco-2025-race'' \<mapsto> Completed] ''monaco-2025-race'' Live =
     (Inl IllegalTransitionError, [''monaco-2025-race'' \<mapsto> Completed])"
    by simp_all
  from transition_rejects_illegal [of "[''monaco-2025-race'' \<mapsto> Created]" "''monaco-2025-race''"] d
  have 3: "transition [''monaco-2025-race'' \<mapsto> Created] ''monaco-2025-race'' Completed =
     (Inl IllegalTransitionError, [''monaco-2025-race'' \<mapsto> Created])"
    by simp
  from 1 2 3 show ?thesis by simp
qed

section \<open>Properties of coalesced recomputation\<close>

lemma engine_run_append:
  "engine_run en (evs @ evs') = engine_run (engine_run en evs) evs'"
  by (induction evs arbitrary: en) simp_all

lemma arrivals_while_busy:
  assumes "busy en" and "xs \<noteq> []"
  shows "engine_run en (map Arrive xs) = en\<lparr>pending := Some (last xs)\<rparr>"
  using assms
proof (induction xs arbitrary: en)
  case Nil
  then show ?case by simp
next
  case (Cons x xs)
  show ?case
  proof (cases "xs = []")
    case True
    with Cons.prems show ?thesis by simp
  next
    case False
    from Cons.prems have "busy (en\<lparr>pending := Some x\<rparr>)" by simp
    from Cons.IH [OF this False] Cons.prems False show ?thesis by simp
  qed
qed

lemma coalesce:
  assumes "busy en" and "xs \<noteq> []"
  shows "engine_run en (map Arrive xs @ [Done]) =
           en\<lparr>pending := None, scored := scored en @ [last xs]\<rparr>"
  using assms by (simp add: engine_run_append arrivals_while_busy)

lemma engine_step_sources:
  assumes "x \<in> set (scored (engine_step en ev)) \<or> pending (engine_step en ev) = Some x"
  shows "x \<in> set (scored en) \<or> pending en = Some x \<or> ev = Arrive x"
  using assms by (cases ev) (auto split: option.splits if_splits)

lemma engine_run_sources:
  assumes "x \<in> set (scored (engine_run en evs)) \<or> pending (engine_run en evs) = Some x"
  shows "x \<in> set (scored en) \<or> pending en = Some x \<or> Arrive x \<in> set evs"
  using assms
proof (induction evs arbitrary: en)
  case Nil
  then show ?case by simp
next
  case (Cons ev evs)
  from Cons.prems have "x \<in> set (scored (engine_run (engine_step en ev) evs)) \<or>
      pending (engine_run (engine_step en ev) evs) = Some x"
    by simp
  from Cons.IH [OF this] have "x \<in> set (scored (engine_step en ev)) \<or>
      pending (engine_step en ev) = Some x \<or> Arrive x \<in> set evs" .
  then show ?case
  proof (elim disjE)
    assume "Arrive x \<in> set evs"
    then show ?thesis by simp
  next
    assume "x \<in> set (scored (engine_step en ev))"
    then have "x \<in> set (scored en) \<or> pending en = Some x \<or> ev = Arrive x"
      by (intro engine_step_sources) simp
    then show ?thesis by auto
  next
    assume "pending (engine_step en ev) = Some x"
    then have "x \<in> set (scored en) \<or> pending en = Some x \<or> ev = Arrive x"
      by (intro engine_step_sources) simp
    then show ?thesis by auto
  qed
qed

lemma superseded_never_scored:
  assumes busy: "busy (engine_run idle_engine pre)"
    and fresh: "Arrive x \<notin> set pre" "Arrive x \<notin> set post" "x \<noteq> y"
  shows "x \<notin> set (scored (engine_run idle_engine (pre @ [Arrive x, Arrive y] @ post)))"
proof
  let ?en = "engine_run idle_engine pre"
  assume "x \<in> set (scored (engine_run idle_engine (pre @ [Arrive x, Arrive y] @ post)))"
  moreover have "engine_run idle_engine (pre @ [Arrive x, Arrive y] @ post) =
      engine_run (engine_run ?en [Arrive x, Arrive y]) post"
    by (simp only: engine_run_append)
  moreover have "engine_run ?en [Arrive x, Arrive y] = ?en\<lparr>pending := Some y\<rparr>"
    using busy by simp
  ultimately have "x \<in> set (scored (engine_run (?en\<lparr>pending := Some y\<rparr>) post))"
    by (simp only:)
  then have "x \<in> set (scored (?en\<lparr>pending := Some y\<rparr>)) \<or>
      pending (?en\<lparr>pending := Some y\<rparr>) = Some x \<or> Arrive x \<in> set post"
    by (intro engine_run_sources) simp
  with fresh(2,3) have "x \<in> set (scored ?en)"
    by simp
  then have "x \<in> set (scored idle_engine) \<or> pending idle_engine = Some x \<or>
      Arrive x \<in> set pre"
    by (intro engine_run_sources) simp
  with fresh(1) show False
    by (simp add: idle_engine_def)
qed

text \<open>
  Claim C6. When snapshots of a session arrive while a scoring call is in progress, the
  engine scores only the latest queued one: after the arrivals \<open>xs\<close> and the return of
  the call, exactly the last of \<open>xs\<close> has been added to the scored snapshots and
  nothing is left queued. A snapshot that arrives during a call and is superseded by
  another arrival is never passed to the scoring function, whatever happens later.
\<close>

theorem coalesced_scoring:
  "(busy en \<and> xs \<noteq> [] \<longrightarrow>
      engine_run en (map Arrive xs @ [Done]) =
        en\<lparr>pending := None, scored := scored en @ [last xs]\<rparr>) \<and>
   (busy (engine_run idle_engine pre) \<and> Arrive x \<notin> set pre \<and> Arrive x \<notin> set post \<and> x \<noteq> y
      \<longrightarrow> x \<notin> set (scored (engine_run idle_engine (pre @ [Arrive x, Arrive y] @ post))))"
proof (intro conjI impI)
  assume "busy en \<and> xs \<noteq> []"
  then show "engine_run en (map Arrive xs @ [Done]) =
      en\<lparr>pending := None, scored := scored en @ [last xs]\<rparr>"
    by (intro coalesce) simp_all
next
  assume "busy (engine_run idle_engine pre) \<and> Arrive x \<notin> set pre \<and> Arrive x \<notin> set post \<and>
      x \<noteq> y"
  then show "x \<notin> set (scored (engine_run idle_engine (pre @ [Arrive x, Arrive y] @ post)))"
    by (intro superseded_never_scored) simp_all
qed


text \<open>
  Sixty snapshots, numbered 0 to 59, arrive before the first scoring call returns: the
  first is scored on arrival and then only the last. And a run in which snapshot 1 is
  superseded by snapshot 2 during a call.
\<close>

theorem coalesced_scoring_witness:
  "engine_run idle_engine (Arrive 0 # map Arrive [1..<60] @ [Done]) =
     \<lparr>busy = True, pending = None, scored = [0, 59 :: nat]\<rparr> \<and>
   (1::nat) \<notin> set (scored (engine_run idle_engine
                  ([Arrive 0] @ [Arrive 1, Arrive 2] @ [Done, Arrive 3, Done])))"
proof -
  let ?en = "\<lparr>busy = True, pending = None, scored = [0::nat]\<rparr>"
  note claim = coalesced_scoring
    [of ?en "[1..<60]" "[Arrive (0::nat)]" 1 "[Done, Arrive 3, Done]" 2]
  have first: "engine_step idle_engine (Arrive (0::nat)) = ?en"
    by (simp add: idle_engine_def)
  have hyp: "busy ?en \<and> [1..<60] \<noteq> []"
    by simp
  from claim [THEN conjunct1, THEN mp, OF hyp]
  have "engine_run ?en (map Arrive [1..<60] @ [Done]) =
          ?en\<lparr>pending := None, scored := scored ?en @ [last [1..<60]]\<rparr>" .
  also have "\<dots> = \<lparr>busy = True, pending = None, scored = [0, 59]\<rparr>"
    by simp
  finally have a: "engine_run idle_engine (Arrive 0 # map Arrive [1..<60] @ [Done]) =
     \<lparr>busy = True, pending = None, scored = [0, 59 :: nat]\<rparr>"
    by (simp only: engine_run.simps first)
  have hyp': "busy (engine_run idle_engine [Arrive (0::nat)]) \<and>
        Arrive (1::nat) \<notin> set [Arrive 0] \<and> Arrive (1::nat) \<notin> set [Done, Arrive 3, Done] \<and>
        (1::nat) \<noteq> 2"
    by (simp add: idle_engine_def)
  from claim [THEN conjunct2, THEN mp, OF hyp']
  have b: "(1::nat) \<notin> set (scored (engine_run idle_engine
                  ([Arrive 0] @ [Arrive 1, Arrive 2] @ [Done, Arrive 3, Done])))" .
  from a b show ?thesis ..
qed

end
